theory Spec2Isabelle
  imports Complex_Main
begin

section \<open>Values, errors and builtins\<close>

text \<open>
  The limiters of \<^verbatim>\<open>rate_limiter.py\<close> are embedded as state-passing functions.
  Timestamps (\<^verbatim>\<open>time.time()\<close>) and token counts are Python floats; they are
  modelled as real numbers, so rounding of the floating-point arithmetic is not
  represented. Python's \<^verbatim>\<open>int\<close> and \<^verbatim>\<open>float\<close> values that are stored
  or compared are both numbers \<open>PNum\<close> (in Python \<^verbatim>\<open>4 == 4.0\<close>).
  The clock is an argument: every \<^verbatim>\<open>check_rate_limit\<close> takes the value that
  \<^verbatim>\<open>time.time()\<close> returns in that call as \<open>current_time\<close>.
\<close>

datatype pyval =
    PNone
  | PNum real
  | PStr string
  | PTuple "pyval list"

datatype error =
    ZeroDivisionError
  | TypeError
  | ValueError string
  | AttributeError
  | HTTPException int string "(string \<times> string) list"

text \<open>
  The builtins \<^verbatim>\<open>float(s)\<close> and \<^verbatim>\<open>int(s)\<close> on a string or bytes argument
  are parameters of the model: whatever they return or raise for a given text.
\<close>

record py_builtins =
  float_of :: "string \<Rightarrow> error + real"
  int_of :: "string \<Rightarrow> error + int"

text \<open>\<^verbatim>\<open>int(x)\<close> on a float truncates towards zero.\<close>

definition py_int :: "real \<Rightarrow> int" where
  "py_int x = (if 0 \<le> x then \<lfloor>x\<rfloor> else \<lceil>x\<rceil>)"

text \<open>An optional ttl as the Python value it is: \<^verbatim>\<open>None\<close> or an integer.\<close>

definition ttl_val :: "int option \<Rightarrow> pyval" where
  "ttl_val ttl = (case ttl of None \<Rightarrow> PNone | Some t \<Rightarrow> PNum (of_int t))"

text \<open>The result of a check: \<^verbatim>\<open>(is_allowed, retry_after_seconds)\<close>.\<close>

type_synonym decision = "bool \<times> int"

section \<open>InMemoryRateLimiter\<close>

text \<open>
  \<^verbatim>\<open>request_records\<close> maps an identifier to \<^verbatim>\<open>(count, window_start)\<close>;
  \<^verbatim>\<open>data_store\<close> maps a key to the tuple \<^verbatim>\<open>(value, ttl)\<close> that
  \<^verbatim>\<open>set_data\<close> stores.
\<close>

record InMemoryRateLimiter =
  request_records :: "string \<rightharpoonup> int \<times> real"
  data_store :: "string \<rightharpoonup> pyval \<times> int option"

definition InMemory_init :: InMemoryRateLimiter where
  "InMemory_init = \<lparr>request_records = Map.empty, data_store = Map.empty\<rparr>"

definition InMemory_check_rate_limit ::
  "string \<Rightarrow> int \<Rightarrow> int \<Rightarrow> real \<Rightarrow> InMemoryRateLimiter \<Rightarrow> decision \<times> InMemoryRateLimiter" where
  "InMemory_check_rate_limit identifier requests_limit window_seconds current_time self =
     (case request_records self identifier of
        Some (requests_count, window_start) \<Rightarrow>
          if current_time - window_start > of_int window_seconds then
            ((True, 0),
             self\<lparr>request_records := (request_records self)(identifier \<mapsto> (1, current_time))\<rparr>)
          else if requests_count \<ge> requests_limit then
            ((False, py_int (window_start + of_int window_seconds - current_time)), self)
          else
            ((True, 0),
             self\<lparr>request_records :=
                    (request_records self)(identifier \<mapsto> (requests_count + 1, window_start))\<rparr>)
      | None \<Rightarrow>
          ((True, 0),
           self\<lparr>request_records := (request_records self)(identifier \<mapsto> (1, current_time))\<rparr>))"

definition InMemory_get_data :: "string \<Rightarrow> InMemoryRateLimiter \<Rightarrow> pyval" where
  "InMemory_get_data key self =
     (case data_store self key of
        None \<Rightarrow> PNone
      | Some (v, ttl) \<Rightarrow> PTuple [v, ttl_val ttl])"

definition InMemory_set_data ::
  "string \<Rightarrow> pyval \<Rightarrow> int option \<Rightarrow> InMemoryRateLimiter \<Rightarrow> InMemoryRateLimiter" where
  "InMemory_set_data key v ttl self = self\<lparr>data_store := (data_store self)(key \<mapsto> (v, ttl))\<rparr>"

text \<open>A sequence of checks for one identifier, at the given clock readings.\<close>

fun InMemory_run ::
  "string \<Rightarrow> int \<Rightarrow> int \<Rightarrow> real list \<Rightarrow> InMemoryRateLimiter \<Rightarrow>
   decision list \<times> InMemoryRateLimiter" where
  "InMemory_run identifier requests_limit window_seconds [] self = ([], self)"
| "InMemory_run identifier requests_limit window_seconds (t # ts) self =
     (case InMemory_check_rate_limit identifier requests_limit window_seconds t self of
        (d, self') \<Rightarrow>
          (case InMemory_run identifier requests_limit window_seconds ts self' of
             (ds, self'') \<Rightarrow> (d # ds, self'')))"

section \<open>RedisRateLimiter\<close>

text \<open>
  The redis client is an injected collaborator. The model records the commands the
  limiter sends to it, in order; the replies of the first pipeline of
  \<^verbatim>\<open>check_rate_limit\<close> (bytes or \<^verbatim>\<open>None\<close>) are arguments. A reply is
  false in a condition when it is \<^verbatim>\<open>None\<close> or empty.
\<close>

datatype redis_cmd =
    GET string
  | SET string pyval
  | SETEX string int pyval
  | EXPIRE string int
  | INCR string

record RedisRateLimiter =
  prefix :: string
  redis :: "redis_cmd list"

definition send :: "redis_cmd list \<Rightarrow> RedisRateLimiter \<Rightarrow> RedisRateLimiter" where
  "send cmds self = self\<lparr>redis := redis self @ cmds\<rparr>"



definition Redis_get_data :: "string \<Rightarrow> RedisRateLimiter \<Rightarrow> pyval \<times> RedisRateLimiter" where
  "Redis_get_data key self = (PNone, send [GET key] self)"

definition Redis_set_data ::
  "string \<Rightarrow> pyval \<Rightarrow> int option \<Rightarrow> RedisRateLimiter \<Rightarrow> RedisRateLimiter" where
  "Redis_set_data key v ttl self =
     (case ttl of
        None \<Rightarrow> send [SET key v] self
      | Some t \<Rightarrow> if t \<noteq> 0 then send [SETEX key t v] self else send [SET key v] self)"

section \<open>Storage backends\<close>

text \<open>
  \<^verbatim>\<open>TokenBucketRateLimiter\<close> reaches its storage only through
  \<^verbatim>\<open>get_data\<close> and \<^verbatim>\<open>set_data\<close> of the object it was given. A backend is
  the pair of these two methods over the backend's state; \<^verbatim>\<open>get_data\<close> returns
  the state as well, since a backend may change on a read.
\<close>

record 's StorageBackend =
  get_data :: "string \<Rightarrow> 's \<Rightarrow> pyval \<times> 's"
  set_data :: "string \<Rightarrow> pyval \<Rightarrow> int option \<Rightarrow> 's \<Rightarrow> 's"

definition InMemory_backend :: "InMemoryRateLimiter StorageBackend" where
  "InMemory_backend =
     \<lparr>get_data = (\<lambda>key self. (InMemory_get_data key self, self)),
      set_data = InMemory_set_data\<rparr>"

definition Redis_backend :: "RedisRateLimiter StorageBackend" where
  "Redis_backend = \<lparr>get_data = Redis_get_data, set_data = Redis_set_data\<rparr>"

text \<open>
  The storage of \<^verbatim>\<open>tests/test_rate_limiter.py\<close>: a mock whose
  \<^verbatim>\<open>get_data\<close> looks the key up in a fixed dictionary and whose
  \<^verbatim>\<open>set_data\<close> changes nothing.
\<close>

definition Mock_backend :: "(string \<rightharpoonup> pyval) StorageBackend" where
  "Mock_backend =
     \<lparr>get_data = (\<lambda>key d. (case d key of None \<Rightarrow> PNone | Some v \<Rightarrow> v, d)),
      set_data = (\<lambda>key v ttl d. d)\<rparr>"

text \<open>
  A backend that keeps the value \<^verbatim>\<open>set_data\<close> is given and returns it from
  \<^verbatim>\<open>get_data\<close>, \<^verbatim>\<open>None\<close> if there is none, as the docstrings of
  \<^verbatim>\<open>RateLimiter.get_data\<close> and \<^verbatim>\<open>RateLimiter.set_data\<close> describe a
  storage backend. Expiry by ttl is not modelled.
\<close>

definition Dict_backend :: "(string \<rightharpoonup> pyval) StorageBackend" where
  "Dict_backend =
     \<lparr>get_data = (\<lambda>key d. (case d key of None \<Rightarrow> PNone | Some v \<Rightarrow> v, d)),
      set_data = (\<lambda>key v ttl d. d(key \<mapsto> v))\<rparr>"

text \<open>
  A backend together with the list of the \<^verbatim>\<open>set_data\<close> calls made on it, as
  the mock of the tests records them.
\<close>

definition logged :: "'s StorageBackend \<Rightarrow> ('s \<times> (string \<times> pyval \<times> int option) list) StorageBackend" where
  "logged st =
     \<lparr>get_data = (\<lambda>key (s, calls). case get_data st key s of (v, s') \<Rightarrow> (v, (s', calls))),
      set_data = (\<lambda>key v ttl (s, calls). (set_data st key v ttl s, calls @ [(key, v, ttl)]))\<rparr>"

section \<open>TokenBucketRateLimiter\<close>

record 's TokenBucketRateLimiter =
  storage :: "'s StorageBackend"
  bucket_capacity :: "real option"

text \<open>\<^verbatim>\<open>self.bucket_capacity or requests_limit\<close>: \<^verbatim>\<open>None\<close> and 0 are false.\<close>

definition capacity_or_limit :: "real option \<Rightarrow> int \<Rightarrow> real" where
  "capacity_or_limit capacity requests_limit =
     (case capacity of
        None \<Rightarrow> of_int requests_limit
      | Some c \<Rightarrow> if c \<noteq> 0 then c else of_int requests_limit)"

text \<open>\<^verbatim>\<open>if isinstance(v, str): v = float(v)\<close>.\<close>

definition float_if_str :: "py_builtins \<Rightarrow> pyval \<Rightarrow> error + pyval" where
  "float_if_str py v =
     (case v of
        PStr s \<Rightarrow> (case float_of py s of Inl e \<Rightarrow> Inl e | Inr x \<Rightarrow> Inr (PNum x))
      | _ \<Rightarrow> Inr v)"

text \<open>
  An operand of float arithmetic: a number, or \<^verbatim>\<open>TypeError\<close> for a tuple (and
  for a string or \<^verbatim>\<open>None\<close>, which do not reach the arithmetic).
\<close>

definition operand :: "pyval \<Rightarrow> error + real" where
  "operand v = (case v of PNum x \<Rightarrow> Inr x | _ \<Rightarrow> Inl TypeError)"

definition TokenBucket_check_rate_limit ::
  "py_builtins \<Rightarrow> 's TokenBucketRateLimiter \<Rightarrow> string \<Rightarrow> int \<Rightarrow> int \<Rightarrow> real \<Rightarrow> 's \<Rightarrow>
   (error + decision) \<times> 's" where
  "TokenBucket_check_rate_limit py self identifier requests_limit window_seconds current_time s =
     (if window_seconds = 0 then (Inl ZeroDivisionError, s)
      else
        let refill_rate = of_int requests_limit / of_int window_seconds;
            capacity = capacity_or_limit (bucket_capacity self) requests_limit;
            bucket_key = ''bucket:'' @ identifier;
            last_update_key = ''last_update:'' @ identifier;
            (current_tokens, s1) = get_data (storage self) bucket_key s;
            (last_update, s2) = get_data (storage self) last_update_key s1
        in
          if current_tokens = PNone \<or> last_update = PNone then
            (Inr (True, 0),
             set_data (storage self) last_update_key (PNum current_time) (Some (window_seconds * 2))
               (set_data (storage self) bucket_key (PNum (capacity - 1)) (Some (window_seconds * 2))
                  s2))
          else
            (case float_if_str py current_tokens of
               Inl e \<Rightarrow> (Inl e, s2)
             | Inr current_tokens \<Rightarrow>
            (case float_if_str py last_update of
               Inl e \<Rightarrow> (Inl e, s2)
             | Inr last_update \<Rightarrow>
            (case operand last_update of
               Inl e \<Rightarrow> (Inl e, s2)
             | Inr last_update \<Rightarrow>
            (let time_elapsed = current_time - last_update;
                 tokens_to_add = time_elapsed * refill_rate
             in
            (case operand current_tokens of
               Inl e \<Rightarrow> (Inl e, s2)
             | Inr current_tokens \<Rightarrow>
            (let new_token_count = min (current_tokens + tokens_to_add) capacity
             in
               if new_token_count \<ge> 1 then
                 (Inr (True, 0),
                  set_data (storage self) last_update_key (PNum current_time)
                    (Some (window_seconds * 2))
                    (set_data (storage self) bucket_key (PNum (new_token_count - 1))
                       (Some (window_seconds * 2)) s2))
               else if refill_rate = 0 then (Inl ZeroDivisionError, s2)
               else
                 let time_until_next_token = (1 - new_token_count) / refill_rate;
                     retry_after = py_int (time_until_next_token + 0.5)
                 in (Inr (False, max 1 retry_after),
                     set_data (storage self) last_update_key (PNum current_time)
                       (Some (window_seconds * 2)) s2))))))))"

text \<open>
  A sequence of checks on one limiter, each with its identifier, window and clock
  reading. An exception ends the call that raised it, not the limiter: the next call
  runs on the storage as the failed call left it.
\<close>

fun TokenBucket_run ::
  "py_builtins \<Rightarrow> 's TokenBucketRateLimiter \<Rightarrow> int \<Rightarrow> (string \<times> int \<times> real) list \<Rightarrow> 's \<Rightarrow>
   (error + decision) list \<times> 's" where
  "TokenBucket_run py self requests_limit [] s = ([], s)"
| "TokenBucket_run py self requests_limit ((identifier, window_seconds, t) # calls) s =
     (case TokenBucket_check_rate_limit py self identifier requests_limit window_seconds t s of
        (r, s') \<Rightarrow>
          (case TokenBucket_run py self requests_limit calls s' of
             (rs, s'') \<Rightarrow> (r # rs, s'')))"

text \<open>
  A recorded \<^verbatim>\<open>set_data\<close> call respects the capacity \<open>C\<close> when it is not a
  write of a token count (its key does not start with \<^verbatim>\<open>bucket:\<close>) or the
  value written is a number in \<open>[0, C]\<close>.
\<close>

definition token_write_ok :: "real \<Rightarrow> string \<times> pyval \<times> int option \<Rightarrow> bool" where
  "token_write_ok C w =
     (case w of
        (key, v, ttl) \<Rightarrow>
          if take 7 key = ''bucket:'' then (case v of PNum x \<Rightarrow> 0 \<le> x \<and> x \<le> C | _ \<Rightarrow> False)
          else True)"

section \<open>FixedWindowRateLimiter\<close>

text \<open>
  The wrapped strategy is its \<^verbatim>\<open>check_rate_limit\<close>, a function of identifier,
  limit and window. \<^verbatim>\<open>random.randint\<close> is an argument, the random source of
  the call.
\<close>

record 'r FixedWindowRateLimiter =
  wrapped :: "string \<Rightarrow> int \<Rightarrow> int \<Rightarrow> 'r"
  jitter_seconds :: int

definition FixedWindow_check_rate_limit ::
  "(int \<Rightarrow> int \<Rightarrow> int) \<Rightarrow> 'r FixedWindowRateLimiter \<Rightarrow> string \<Rightarrow> int \<Rightarrow> int \<Rightarrow> 'r" where
  "FixedWindow_check_rate_limit randint self identifier requests_limit window_seconds =
     (let window_seconds =
            (if jitter_seconds self > 0 then window_seconds + randint 0 (jitter_seconds self)
             else window_seconds)
      in wrapped self identifier requests_limit window_seconds)"

section \<open>The rate\_limit decorator\<close>









section \<open>Decimal literals\<close>

text \<open>
  An instance of the builtins for evaluating the model on concrete inputs: it reads
  an optional sign, digits and, for \<^verbatim>\<open>float\<close>, an optional fraction. On these
  literals Python's \<^verbatim>\<open>float\<close> and \<^verbatim>\<open>int\<close> return the same number.
\<close>

definition digit_of :: "char \<Rightarrow> nat option" where
  "digit_of c =
     (let n = (of_char c :: nat) in if 48 \<le> n \<and> n \<le> 57 then Some (n - 48) else None)"

fun digits_val :: "nat \<Rightarrow> string \<Rightarrow> nat option" where
  "digits_val acc [] = Some acc"
| "digits_val acc (c # cs) =
     (case digit_of c of None \<Rightarrow> None | Some d \<Rightarrow> digits_val (10 * acc + d) cs)"

definition split_sign :: "string \<Rightarrow> bool \<times> string" where
  "split_sign s =
     (case s of
        [] \<Rightarrow> (False, [])
      | c # cs \<Rightarrow>
          if c = CHR ''-'' then (True, cs) else if c = CHR ''+'' then (False, cs) else (False, s))"

definition decimal_int :: "string \<Rightarrow> error + int" where
  "decimal_int s =
     (case split_sign s of
        (neg, ds) \<Rightarrow>
          (case (if ds = [] then None else digits_val 0 ds) of
             None \<Rightarrow> Inl (ValueError (''invalid literal for int() with base 10: '' @ s))
           | Some n \<Rightarrow> Inr (if neg then - int n else int n)))"

definition decimal_float :: "string \<Rightarrow> error + real" where
  "decimal_float s =
     (case split_sign s of
        (neg, ds) \<Rightarrow>
          (let ip = takeWhile (\<lambda>c. c \<noteq> CHR ''.'') ds;
               fp = drop 1 (dropWhile (\<lambda>c. c \<noteq> CHR ''.'') ds)
           in case (if ip = [] \<and> fp = [] then None else digits_val 0 ip, digits_val 0 fp) of
                (Some i, Some f) \<Rightarrow>
                  (let x = real i + real f / 10 ^ length fp in Inr (if neg then - x else x))
              | _ \<Rightarrow> Inl (ValueError (''could not convert string to float: '' @ s))))"

definition decimal_builtins :: py_builtins where
  "decimal_builtins = \<lparr>float_of = decimal_float, int_of = decimal_int\<rparr>"

section \<open>Window reset\<close>



section \<open>Admission up to the limit\<close>

lemma InMemory_run_append:
  "InMemory_run ident L W (xs @ ys) self =
     (case InMemory_run ident L W xs self of
        (ds, self') \<Rightarrow>
          (case InMemory_run ident L W ys self' of (ds', self'') \<Rightarrow> (ds @ ds', self'')))"
  by (induction xs arbitrary: self) (auto split: prod.splits)

lemma InMemory_run_under_limit:
  assumes "request_records self ident = Some (c, t0)"
    and "\<forall>t\<in>set ts. t - t0 \<le> of_int W"
    and "c + int (length ts) \<le> L"
  shows "InMemory_run ident L W ts self =
     (replicate (length ts) (True, 0),
      self\<lparr>request_records := (request_records self)(ident \<mapsto> (c + int (length ts), t0))\<rparr>)"
  using assms
proof (induction ts arbitrary: c self)
  case Nil
  then show ?case by (simp add: map_upd_triv)
next
  case (Cons t ts)
  let ?self' = "self\<lparr>request_records := (request_records self)(ident \<mapsto> (c + 1, t0))\<rparr>"
  have step: "InMemory_check_rate_limit ident L W t self = ((True, 0), ?self')"
    using Cons.prems by (simp add: InMemory_check_rate_limit_def)
  have "InMemory_run ident L W ts ?self' =
     (replicate (length ts) (True, 0),
      ?self'\<lparr>request_records :=
                (request_records ?self')(ident \<mapsto> (c + 1 + int (length ts), t0))\<rparr>)"
    using Cons.prems by (intro Cons.IH) auto
  moreover have "c + 1 + int (length ts) = c + int (length (t # ts))" by simp
  ultimately show ?case
    using step by (simp del: of_nat_Suc length_Cons add: fun_upd_def[symmetric])
qed

lemma py_int_bounds: "0 \<le> x \<Longrightarrow> x \<le> of_int W \<Longrightarrow> 0 \<le> py_int x \<and> py_int x \<le> W"
  by (simp add: py_int_def floor_le_iff le_floor_iff)

text \<open>
  What the in-process limiter does with \<open>L\<close> calls and one more inside one window,
  for an identifier it has no record of: the first \<open>L\<close> calls are allowed, the next
  is denied, and its retry-after is \<open>int(window_start + window_seconds - now)\<close>,
  between 0 and the window; it is positive exactly when the call comes at least one
  second before the window ends.
\<close>

theorem InMemory_limit_then_deny:
  assumes "request_records self ident = None"
    and "length ts + 1 = nat L"
    and "\<forall>u\<in>set (ts @ [t]). t0 \<le> u \<and> u - t0 \<le> of_int W"
  shows "fst (InMemory_run ident L W (t0 # ts @ [t]) self) =
           replicate (nat L) (True, 0) @ [(False, py_int (t0 + of_int W - t))]"
    and "0 \<le> py_int (t0 + of_int W - t)" and "py_int (t0 + of_int W - t) \<le> W"
    and "0 < py_int (t0 + of_int W - t) \<longleftrightarrow> t + 1 \<le> t0 + of_int W"
proof -
  let ?s1 = "self\<lparr>request_records := (request_records self)(ident \<mapsto> (1, t0))\<rparr>"
  let ?s2 = "?s1\<lparr>request_records :=
                  (request_records ?s1)(ident \<mapsto> (1 + int (length ts), t0))\<rparr>"
  have first: "InMemory_check_rate_limit ident L W t0 self = ((True, 0), ?s1)"
    using assms(1) by (simp add: InMemory_check_rate_limit_def)
  have L: "1 + int (length ts) = L" using assms(2) by linarith
  have mid: "InMemory_run ident L W ts ?s1 = (replicate (length ts) (True, 0), ?s2)"
    using assms(3) L by (intro InMemory_run_under_limit) auto
  have last: "InMemory_check_rate_limit ident L W t ?s2
                = ((False, py_int (t0 + of_int W - t)), ?s2)"
    using assms(3) L by (simp add: InMemory_check_rate_limit_def)
  have n: "nat L = Suc (length ts)" using assms(2) by simp
  show "fst (InMemory_run ident L W (t0 # ts @ [t]) self) =
           replicate (nat L) (True, 0) @ [(False, py_int (t0 + of_int W - t))]"
    using first mid last by (simp add: InMemory_run_append n)
  have b: "0 \<le> t0 + of_int W - t" "t0 + of_int W - t \<le> of_int W" using assms(3) by auto
  show "0 \<le> py_int (t0 + of_int W - t)" "py_int (t0 + of_int W - t) \<le> W"
    using py_int_bounds[OF b] by auto
  show "0 < py_int (t0 + of_int W - t) \<longleftrightarrow> t + 1 \<le> t0 + of_int W"
    using b by (simp add: py_int_def) linarith
qed

text \<open>
  C1. With limit 1 and window 60, a first call at time 0 is allowed and a second call
  at time 59.5, inside the same window, is denied: the limit is enforced. Its
  retry-after is \<open>int(0 + 60 - 59.5) = 0\<close>, not a value in \<open>(0, 60]\<close>: in the
  last second of a window the truncation gives 0, which the interface reserves for
  an allowed request. The token bucket returns \<open>max(1, retry_after)\<close> on a deny;
  the fixed-window limiters do not.
\<close>

theorem deny_with_zero_retry_after:
  "fst (InMemory_run ''A'' 1 60 [0, 59.5] InMemory_init) = [(True, 0), (False, 0)]"
  by (simp add: InMemory_check_rate_limit_def InMemory_init_def py_int_def)

section \<open>Storage round trip\<close>

lemma dom_fold_set_data:
  "dom (data_store (fold (\<lambda>(k, v, ttl). InMemory_set_data k v ttl) writes self))
     = dom (data_store self) \<union> fst ` set writes"
  by (induction writes arbitrary: self) (auto simp: InMemory_set_data_def)

text \<open>
  C2, as the code has it. In the in-process backend \<^verbatim>\<open>set_data(key, value, ttl)\<close>
  followed by \<^verbatim>\<open>get_data(key)\<close> returns the tuple \<^verbatim>\<open>(value, ttl)\<close>, whose
  first component is the value stored, and leaves every other key as it was. After
  any sequence of \<^verbatim>\<open>set_data\<close> calls on a new limiter, \<^verbatim>\<open>get_data\<close>
  returns \<^verbatim>\<open>None\<close> exactly for the keys that were never set.
\<close>

theorem InMemory_get_after_set:
  "InMemory_get_data key (InMemory_set_data key v ttl self) = PTuple [v, ttl_val ttl] \<and>
   (key' \<noteq> key \<longrightarrow>
      InMemory_get_data key' (InMemory_set_data key v ttl self) = InMemory_get_data key' self) \<and>
   (InMemory_get_data key
        (fold (\<lambda>(k, v, ttl). InMemory_set_data k v ttl) writes InMemory_init) = PNone
      \<longleftrightarrow> key \<notin> fst ` set writes)"
proof -
  have "dom (data_store (fold (\<lambda>(k, v, ttl). InMemory_set_data k v ttl) writes InMemory_init))
          = fst ` set writes"
    by (simp add: dom_fold_set_data InMemory_init_def)
  then have "key \<notin> fst ` set writes \<longleftrightarrow>
      data_store (fold (\<lambda>(k, v, ttl). InMemory_set_data k v ttl) writes InMemory_init) key = None"
    by (metis domIff)
  then show ?thesis
    by (simp add: InMemory_get_data_def InMemory_set_data_def split: option.splits)
qed

theorem InMemory_get_after_set_witness:
  "''other'' \<noteq> ''test_key'' \<and>
   InMemory_get_data ''test_key''
       (InMemory_set_data ''test_key'' (PStr ''test_value'') (Some 60) InMemory_init)
     = PTuple [PStr ''test_value'', PNum 60] \<and>
   InMemory_get_data ''other''
       (InMemory_set_data ''test_key'' (PStr ''test_value'') (Some 60) InMemory_init) = PNone \<and>
   InMemory_get_data ''non_existent_key''
       (fold (\<lambda>(k, v, ttl). InMemory_set_data k v ttl)
          [(''test_key'', PStr ''test_value'', Some 60)] InMemory_init) = PNone"
  using InMemory_get_after_set [where key = "''test_key''" and v = "PStr ''test_value''"
      and ttl = "Some 60" and self = InMemory_init and key' = "''other''"
      and writes = "[(''test_key'', PStr ''test_value'', Some 60)]"]
    InMemory_get_after_set [where key = "''non_existent_key''"
      and writes = "[(''test_key'', PStr ''test_value'', Some 60)]"]
  by (simp add: ttl_val_def InMemory_get_data_def InMemory_init_def)

text \<open>
  The round trip of C2 fails in both backends: after
  \<^verbatim>\<open>set_data("test_key", "test_value", 60)\<close> the in-process backend returns the
  tuple \<^verbatim>\<open>("test_value", 60)\<close> and the redis backend returns \<^verbatim>\<open>None\<close>;
  neither is the value stored.
\<close>

theorem get_after_set_is_not_the_value:
  "InMemory_get_data ''test_key''
       (InMemory_set_data ''test_key'' (PStr ''test_value'') (Some 60) InMemory_init)
     = PTuple [PStr ''test_value'', PNum 60] \<and>
   PTuple [PStr ''test_value'', PNum 60] \<noteq> PStr ''test_value'' \<and>
   fst (Redis_get_data ''test_key''
          (Redis_set_data ''test_key'' (PStr ''test_value'') (Some 60)
             \<lparr>prefix = ''ratelimit:'', redis = []\<rparr>))
     = PNone \<and>
   PNone \<noteq> PStr ''test_value''"
  by (simp add: InMemory_get_data_def InMemory_set_data_def InMemory_init_def ttl_val_def
      Redis_get_data_def)

section \<open>Token bucket: the paths of a check\<close>




lemma get_data_logged:
  "get_data st key s = (v, s') \<Longrightarrow> get_data (logged st) key (s, calls) = (v, (s', calls))"
  by (simp add: logged_def)

lemma set_data_logged:
  "set_data (logged st) key v ttl (s, calls) = (set_data st key v ttl s, calls @ [(key, v, ttl)])"
  by (simp add: logged_def)



section \<open>Token bucket: deny\<close>



section \<open>Token bucket: capacity bound\<close>

lemma TokenBucket_step_writes:
  assumes "1 \<le> capacity_or_limit cap L"
    and "TokenBucket_check_rate_limit py \<lparr>storage = logged st, bucket_capacity = cap\<rparr>
           ident L W now (s, calls) = (r, (s', calls'))"
  shows "\<exists>new. calls' = calls @ new \<and> list_all (token_write_ok (capacity_or_limit cap L)) new"
proof -
  obtain current_tokens s1 where g1: "get_data st (''bucket:'' @ ident) s = (current_tokens, s1)"
    by (cases "get_data st (''bucket:'' @ ident) s")
  obtain last_update s2 where g2: "get_data st (''last_update:'' @ ident) s1 = (last_update, s2)"
    by (cases "get_data st (''last_update:'' @ ident) s1")
  show ?thesis
    using assms g1 g2
    by (auto simp add: TokenBucket_check_rate_limit_def Let_def get_data_logged set_data_logged
        token_write_ok_def split: if_splits sum.splits)
qed

lemma TokenBucket_run_writes:
  assumes "1 \<le> capacity_or_limit cap L"
    and "TokenBucket_run py \<lparr>storage = logged st, bucket_capacity = cap\<rparr> L cs (s, calls)
           = (rs, (s', calls'))"
  shows "\<exists>new. calls' = calls @ new \<and> list_all (token_write_ok (capacity_or_limit cap L)) new"
  using assms(2)
proof (induction cs arbitrary: s calls rs)
  case Nil
  then show ?case by simp
next
  case (Cons c cs)
  obtain ident W t where c: "c = (ident, W, t)" by (cases c)
  obtain r s1 calls1 where step:
    "TokenBucket_check_rate_limit py \<lparr>storage = logged st, bucket_capacity = cap\<rparr>
       ident L W t (s, calls) = (r, (s1, calls1))"
    by (metis surj_pair)
  obtain rs1 where rest:
    "TokenBucket_run py \<lparr>storage = logged st, bucket_capacity = cap\<rparr> L cs (s1, calls1)
       = (rs1, (s', calls'))"
    using Cons.prems c step by (auto split: prod.splits)
  from TokenBucket_step_writes[OF assms(1) step] obtain new1 where
    n1: "calls1 = calls @ new1" "list_all (token_write_ok (capacity_or_limit cap L)) new1"
    by blast
  from Cons.IH[OF rest] obtain new2 where
    n2: "calls' = calls1 @ new2" "list_all (token_write_ok (capacity_or_limit cap L)) new2"
    by blast
  have "calls' = calls @ (new1 @ new2)" using n1 n2 by simp
  moreover have "list_all (token_write_ok (capacity_or_limit cap L)) (new1 @ new2)"
    using n1 n2 by simp
  ultimately show ?case by blast
qed

text \<open>
  C7. Run any sequence of checks, for any identifiers, windows and clock readings, on
  a limiter whose effective capacity \<open>C\<close> (the configured capacity, else the limit)
  is at least 1, over any storage backend and from any storage state, with every
  \<^verbatim>\<open>set_data\<close> call recorded. Every recorded write under a bucket key is a
  number in \<open>[0, C]\<close>.
\<close>

theorem written_tokens_within_capacity:
  assumes "1 \<le> capacity_or_limit (bucket_capacity self) requests_limit"
    and "TokenBucket_run py \<lparr>storage = logged (storage self), bucket_capacity = bucket_capacity self\<rparr>
           requests_limit calls (s, []) = (results, (s', writes))"
  shows "list_all (token_write_ok (capacity_or_limit (bucket_capacity self) requests_limit)) writes"
  using TokenBucket_run_writes[OF assms] by simp


theorem written_tokens_within_capacity_witness:
  "1 \<le> capacity_or_limit None 2 \<and>
   fst (TokenBucket_run decimal_builtins \<lparr>storage = logged Dict_backend, bucket_capacity = None\<rparr> 2
          [(''A'', 60, 0), (''A'', 60, 0), (''A'', 60, 3), (''A'', 60, 60)] (Map.empty, []))
     = [Inr (True, 0), Inr (True, 0), Inr (False, 27), Inr (True, 0)] \<and>
   snd (snd (TokenBucket_run decimal_builtins
               \<lparr>storage = logged Dict_backend, bucket_capacity = None\<rparr> 2
               [(''A'', 60, 0), (''A'', 60, 0), (''A'', 60, 3), (''A'', 60, 60)] (Map.empty, [])))
     = [(''bucket:A'', PNum 1, Some 120), (''last_update:A'', PNum 0, Some 120),
        (''bucket:A'', PNum 0, Some 120), (''last_update:A'', PNum 0, Some 120),
        (''last_update:A'', PNum 3, Some 120),
        (''bucket:A'', PNum (9 / 10), Some 120), (''last_update:A'', PNum 60, Some 120)] \<and>
   list_all (token_write_ok 2)
     [(''bucket:A'', PNum 1, Some 120), (''last_update:A'', PNum 0, Some 120),
      (''bucket:A'', PNum 0, Some 120), (''last_update:A'', PNum 0, Some 120),
      (''last_update:A'', PNum 3, Some 120),
      (''bucket:A'', PNum (9 / 10), Some 120), (''last_update:A'', PNum 60, Some 120)]"
proof -
  let ?self = "\<lparr>storage = Dict_backend, bucket_capacity = None\<rparr>"
  let ?run = "TokenBucket_run decimal_builtins
      \<lparr>storage = logged (storage ?self), bucket_capacity = bucket_capacity ?self\<rparr> 2
      [(''A'', 60, 0), (''A'', 60, 0), (''A'', 60, 3), (''A'', 60, 60)] (Map.empty, [])"
  have cap: "1 \<le> capacity_or_limit (bucket_capacity ?self) 2"
    by (simp add: capacity_or_limit_def)
  have run: "?run = (fst ?run, (fst (snd ?run), snd (snd ?run)))" by simp
  have res: "fst ?run = [Inr (True, 0), Inr (True, 0), Inr (False, 27), Inr (True, 0)]"
    by (simp add: TokenBucket_check_rate_limit_def logged_def Dict_backend_def
        capacity_or_limit_def float_if_str_def operand_def py_int_def Let_def)
  have writes: "snd (snd ?run)
     = [(''bucket:A'', PNum 1, Some 120), (''last_update:A'', PNum 0, Some 120),
        (''bucket:A'', PNum 0, Some 120), (''last_update:A'', PNum 0, Some 120),
        (''last_update:A'', PNum 3, Some 120),
        (''bucket:A'', PNum (9 / 10), Some 120), (''last_update:A'', PNum 60, Some 120)]"
    by (simp add: TokenBucket_check_rate_limit_def logged_def Dict_backend_def
        capacity_or_limit_def float_if_str_def operand_def py_int_def Let_def)
  have sel: "storage ?self = Dict_backend" "bucket_capacity ?self = None" by simp_all
  have c2: "capacity_or_limit None 2 = 2" by (simp add: capacity_or_limit_def)
  note w = written_tokens_within_capacity [OF cap run]
  note ok = w [unfolded sel c2, unfolded writes [unfolded sel]]
  show ?thesis
    using ok cap [unfolded sel] res [unfolded sel] writes [unfolded sel]
    by blast
qed

section \<open>Token bucket over the in-process backend\<close>

lemma InMemory_present_fails:
  assumes "data_store s (''bucket:'' @ ident) = Some (v1, t1)"
    and "data_store s (''last_update:'' @ ident) = Some (v2, t2)"
  shows "TokenBucket_check_rate_limit py \<lparr>storage = InMemory_backend, bucket_capacity = cap\<rparr>
           ident L W now s = (Inl (if W = 0 then ZeroDivisionError else TypeError), s)"
  using assms
  by (simp add: TokenBucket_check_rate_limit_def InMemory_backend_def InMemory_get_data_def
      float_if_str_def operand_def Let_def)

lemma InMemory_success_stores:
  assumes "TokenBucket_check_rate_limit py \<lparr>storage = InMemory_backend, bucket_capacity = cap\<rparr>
             ident L W now s = (Inr d, s')"
  shows "d = (True, 0) \<and>
         s' = InMemory_set_data (''last_update:'' @ ident) (PNum now) (Some (W * 2))
                (InMemory_set_data (''bucket:'' @ ident) (PNum (capacity_or_limit cap L - 1))
                   (Some (W * 2)) s)"
  using assms
  by (auto simp add: TokenBucket_check_rate_limit_def InMemory_backend_def InMemory_get_data_def
      float_if_str_def operand_def Let_def split: if_splits option.splits)

text \<open>
  C9. After a check of the token bucket over the in-process backend has returned a
  decision for an identifier, \<^verbatim>\<open>get_data\<close> returns tuples \<^verbatim>\<open>(value, ttl)\<close>
  for both of its keys, and every later check for that identifier, whatever its
  limit, window and time, raises instead of returning a decision:
  \<^verbatim>\<open>TypeError\<close> at \<^verbatim>\<open>current_time - last_update\<close>, the first arithmetic on a
  value read (or \<^verbatim>\<open>ZeroDivisionError\<close> before that if its window is 0). The
  storage is left as it was.
\<close>

theorem InMemory_second_check_fails:
  assumes "TokenBucket_check_rate_limit py \<lparr>storage = InMemory_backend, bucket_capacity = cap\<rparr>
             ident L W now s = (Inr d, s')"
  shows "InMemory_get_data (''bucket:'' @ ident) s'
           = PTuple [PNum (capacity_or_limit cap L - 1), PNum (of_int (W * 2))]
       \<and> InMemory_get_data (''last_update:'' @ ident) s' = PTuple [PNum now, PNum (of_int (W * 2))]
       \<and> TokenBucket_check_rate_limit py' \<lparr>storage = InMemory_backend, bucket_capacity = cap'\<rparr>
             ident L' W' now' s'
           = (Inl (if W' = 0 then ZeroDivisionError else TypeError), s')"
proof -
  from InMemory_success_stores[OF assms] have s':
    "s' = InMemory_set_data (''last_update:'' @ ident) (PNum now) (Some (W * 2))
                (InMemory_set_data (''bucket:'' @ ident) (PNum (capacity_or_limit cap L - 1))
                   (Some (W * 2)) s)" by simp
  have b: "data_store s' (''bucket:'' @ ident) = Some (PNum (capacity_or_limit cap L - 1), Some (W * 2))"
    and l: "data_store s' (''last_update:'' @ ident) = Some (PNum now, Some (W * 2))"
    unfolding s' by (simp_all add: InMemory_set_data_def)
  show ?thesis
    using InMemory_present_fails[OF b l] b l
    by (simp add: InMemory_get_data_def ttl_val_def)
qed

theorem InMemory_second_check_fails_witness:
  "TokenBucket_check_rate_limit decimal_builtins
       \<lparr>storage = InMemory_backend, bucket_capacity = None\<rparr> ''test_client'' 5 60 0 InMemory_init
     = (Inr (True, 0),
        InMemory_set_data ''last_update:test_client'' (PNum 0) (Some 120)
          (InMemory_set_data ''bucket:test_client'' (PNum 4) (Some 120) InMemory_init)) \<and>
   InMemory_get_data ''bucket:test_client''
       (InMemory_set_data ''last_update:test_client'' (PNum 0) (Some 120)
          (InMemory_set_data ''bucket:test_client'' (PNum 4) (Some 120) InMemory_init))
     = PTuple [PNum 4, PNum 120] \<and>
   TokenBucket_check_rate_limit decimal_builtins
       \<lparr>storage = InMemory_backend, bucket_capacity = None\<rparr> ''test_client'' 5 60 1
       (InMemory_set_data ''last_update:test_client'' (PNum 0) (Some 120)
          (InMemory_set_data ''bucket:test_client'' (PNum 4) (Some 120) InMemory_init))
     = (Inl TypeError,
        InMemory_set_data ''last_update:test_client'' (PNum 0) (Some 120)
          (InMemory_set_data ''bucket:test_client'' (PNum 4) (Some 120) InMemory_init))"
proof -
  have first: "TokenBucket_check_rate_limit decimal_builtins
       \<lparr>storage = InMemory_backend, bucket_capacity = None\<rparr> ''test_client'' 5 60 0 InMemory_init
     = (Inr (True, 0),
        InMemory_set_data ''last_update:test_client'' (PNum 0) (Some 120)
          (InMemory_set_data ''bucket:test_client'' (PNum 4) (Some 120) InMemory_init))"
    by (simp add: TokenBucket_check_rate_limit_def InMemory_backend_def InMemory_get_data_def
        InMemory_init_def capacity_or_limit_def Let_def)
  show ?thesis
    using first
      InMemory_second_check_fails [OF first, where py' = decimal_builtins and cap' = None
        and L' = 5 and W' = 60 and now' = 1]
    by (simp add: capacity_or_limit_def)
qed

section \<open>Token bucket over the redis backend\<close>

lemma Redis_first:
  "W \<noteq> 0 \<Longrightarrow>
   TokenBucket_check_rate_limit py \<lparr>storage = Redis_backend, bucket_capacity = cap\<rparr> ident L W now r
     = (Inr (True, 0),
        send [GET (''bucket:'' @ ident), GET (''last_update:'' @ ident),
              SETEX (''bucket:'' @ ident) (W * 2) (PNum (capacity_or_limit cap L - 1)),
              SETEX (''last_update:'' @ ident) (W * 2) (PNum now)] r)"
  by (simp add: TokenBucket_check_rate_limit_def Redis_backend_def Redis_get_data_def
      Redis_set_data_def send_def Let_def)

lemma Redis_zero_window:
  "TokenBucket_check_rate_limit py \<lparr>storage = Redis_backend, bucket_capacity = cap\<rparr> ident L 0 now r
     = (Inl ZeroDivisionError, r)"
  by (simp add: TokenBucket_check_rate_limit_def)

lemma Redis_run_all_allowed:
  "list_all (\<lambda>(ident, W, t). W \<noteq> 0) calls \<Longrightarrow>
   fst (TokenBucket_run py \<lparr>storage = Redis_backend, bucket_capacity = cap\<rparr> L calls r)
     = replicate (length calls) (Inr (True, 0))"
proof (induction calls arbitrary: r)
  case Nil
  then show ?case by simp
next
  case (Cons c calls)
  obtain ident W t where c: "c = (ident, W, t)" by (cases c)
  with Cons.prems have W: "W \<noteq> 0" and rest: "list_all (\<lambda>(ident, W, t). W \<noteq> 0) calls"
    by auto
  show ?case using Cons.IH[OF rest] by (simp add: c Redis_first[OF W] split_beta)
qed

text \<open>
  C10. \<^verbatim>\<open>RedisRateLimiter.get_data\<close> returns \<^verbatim>\<open>None\<close> for every key and in
  every state, also right after \<^verbatim>\<open>set_data\<close> for that key. A token bucket over
  it therefore takes the initialisation path in every check: with a window that is
  not 0 the check returns \<^verbatim>\<open>(True, 0)\<close> after sending two reads and two
  \<^verbatim>\<open>SETEX\<close>; no check returns a deny; and a sequence of checks with non-zero
  windows returns \<^verbatim>\<open>(True, 0)\<close> every time.
\<close>

theorem Redis_token_bucket_never_denies:
  "fst (Redis_get_data key r) = PNone \<and>
   fst (Redis_get_data key (Redis_set_data key v ttl r)) = PNone \<and>
   (W \<noteq> 0 \<longrightarrow>
      TokenBucket_check_rate_limit py \<lparr>storage = Redis_backend, bucket_capacity = cap\<rparr>
          ident L W now r
        = (Inr (True, 0),
           send [GET (''bucket:'' @ ident), GET (''last_update:'' @ ident),
                 SETEX (''bucket:'' @ ident) (W * 2) (PNum (capacity_or_limit cap L - 1)),
                 SETEX (''last_update:'' @ ident) (W * 2) (PNum now)] r)) \<and>
   fst (TokenBucket_check_rate_limit py \<lparr>storage = Redis_backend, bucket_capacity = cap\<rparr>
          ident L W now r) \<noteq> Inr (False, retry_after) \<and>
   (list_all (\<lambda>(ident, W, t). W \<noteq> 0) calls \<longrightarrow>
      fst (TokenBucket_run py \<lparr>storage = Redis_backend, bucket_capacity = cap\<rparr> L calls r)
        = replicate (length calls) (Inr (True, 0)))"
proof -
  have "fst (TokenBucket_check_rate_limit py \<lparr>storage = Redis_backend, bucket_capacity = cap\<rparr>
          ident L W now r) \<noteq> Inr (False, retry_after)"
    by (cases "W = 0") (simp_all add: Redis_first Redis_zero_window)
  then show ?thesis
    by (simp add: Redis_first Redis_run_all_allowed Redis_get_data_def)
qed

theorem Redis_token_bucket_never_denies_witness:
  "(60::int) \<noteq> 0 \<and>
   list_all (\<lambda>(ident, W, t). W \<noteq> 0) [(''A'', 60 :: int, 0 :: real), (''A'', 60, 0), (''A'', 60, 0)] \<and>
   fst (Redis_get_data ''bucket:A''
          (Redis_set_data ''bucket:A'' (PNum 0) (Some 120) \<lparr>prefix = ''ratelimit:'', redis = []\<rparr>))
     = PNone \<and>
   TokenBucket_check_rate_limit decimal_builtins
       \<lparr>storage = Redis_backend, bucket_capacity = None\<rparr> ''A'' 1 60 0
       \<lparr>prefix = ''ratelimit:'', redis = []\<rparr>
     = (Inr (True, 0),
        \<lparr>prefix = ''ratelimit:'',
         redis = [GET ''bucket:A'', GET ''last_update:A'',
                  SETEX ''bucket:A'' 120 (PNum 0), SETEX ''last_update:A'' 120 (PNum 0)]\<rparr>) \<and>
   fst (TokenBucket_run decimal_builtins \<lparr>storage = Redis_backend, bucket_capacity = None\<rparr> 1
          [(''A'', 60, 0), (''A'', 60, 0), (''A'', 60, 0)] \<lparr>prefix = ''ratelimit:'', redis = []\<rparr>)
     = [Inr (True, 0), Inr (True, 0), Inr (True, 0)]"
  using Redis_token_bucket_never_denies [where key = "''bucket:A''" and v = "PNum 0"
      and ttl = "Some 120" and r = "\<lparr>prefix = ''ratelimit:'', redis = []\<rparr>" and W = 60
      and py = decimal_builtins and cap = None and ident = "''A''" and L = 1 and now = 0
      and calls = "[(''A'', 60, 0), (''A'', 60, 0), (''A'', 60, 0)]" and retry_after = 0]
  by (simp add: send_def capacity_or_limit_def TokenBucket_check_rate_limit_def
      Redis_backend_def Redis_get_data_def Redis_set_data_def Let_def)

section \<open>Jittered window\<close>

text \<open>
  C6. Let \<^verbatim>\<open>random.randint(0, J)\<close> return a value in \<open>[0, J]\<close> when the jitter
  \<open>J\<close> is positive. Then a check of the wrapper is one call of the wrapped
  strategy, whatever that strategy is, with the identifier and the limit it was
  given and a window \<open>w\<close> with \<open>window_seconds \<le> w \<le> window_seconds + max(0, J)\<close>,
  equal to \<open>window_seconds\<close> when \<open>J \<le> 0\<close>; the wrapper returns what the strategy
  returns. With \<open>J = 5\<close>, window 60 and a draw of 3 the strategy is called with
  window 63.
\<close>

theorem jitter_delegates:
  "((jitter_seconds self > 0 \<longrightarrow>
      0 \<le> randint 0 (jitter_seconds self) \<and> randint 0 (jitter_seconds self) \<le> jitter_seconds self)
   \<longrightarrow>
    (\<exists>w. window_seconds \<le> w \<and> w \<le> window_seconds + max 0 (jitter_seconds self) \<and>
        (jitter_seconds self \<le> 0 \<longrightarrow> w = window_seconds) \<and>
        (\<forall>strategy.
           FixedWindow_check_rate_limit randint
               \<lparr>wrapped = strategy, jitter_seconds = jitter_seconds self\<rparr>
               ident requests_limit window_seconds
             = (strategy ident requests_limit w :: 'r)) \<and>
        FixedWindow_check_rate_limit randint self ident requests_limit window_seconds
          = (wrapped self ident requests_limit w :: 'r)))
   \<and> FixedWindow_check_rate_limit (\<lambda>lo hi. 3) \<lparr>wrapped = strategy', jitter_seconds = 5\<rparr>
         ident requests_limit 60
       = (strategy' ident requests_limit 63 :: 'r)"
proof -
  have c: "FixedWindow_check_rate_limit (\<lambda>lo hi. 3) \<lparr>wrapped = strategy', jitter_seconds = 5\<rparr>
         ident requests_limit 60 = strategy' ident requests_limit 63"
    by (simp add: FixedWindow_check_rate_limit_def)
  show ?thesis
  proof (cases "jitter_seconds self > 0")
    case True
    show ?thesis
      using True c
      by (auto simp add: FixedWindow_check_rate_limit_def Let_def
          intro!: exI[of _ "window_seconds + randint 0 (jitter_seconds self)"])
  next
    case False
    show ?thesis
      using False c
      by (auto simp add: FixedWindow_check_rate_limit_def Let_def intro!: exI[of _ window_seconds])
  qed
qed

theorem jitter_delegates_witness:
  "(5::int) > 0 \<and> (0::int) \<le> 3 \<and> (3::int) \<le> 5 \<and>
   FixedWindow_check_rate_limit (\<lambda>lo hi. 3)
       \<lparr>wrapped = (\<lambda>i l w. (i, l, w)), jitter_seconds = 5\<rparr> ''test_client'' 5 60
     = (''test_client'', 5, 63) \<and>
   FixedWindow_check_rate_limit (\<lambda>lo hi. 3)
       \<lparr>wrapped = (\<lambda>i l w. (i, l, w)), jitter_seconds = 0\<rparr> ''test_client'' 5 60
     = (''test_client'', 5, 60)"
  using jitter_delegates [where self = "\<lparr>wrapped = (\<lambda>i l w. (i, l, w)), jitter_seconds = 5\<rparr>"
      and randint = "\<lambda>lo hi. 3" and window_seconds = 60 and ident = "''test_client''"
      and requests_limit = 5 and strategy' = "\<lambda>i l w. (i, l, w)"]
    jitter_delegates [where self = "\<lparr>wrapped = (\<lambda>i l w. (i, l, w)), jitter_seconds = 0\<rparr>"
      and randint = "\<lambda>lo hi. 3" and window_seconds = 60 and ident = "''test_client''"
      and requests_limit = 5 and strategy' = "\<lambda>i l w. (i, l, w)"]
  by (simp add: FixedWindow_check_rate_limit_def)

section \<open>The decorator's three outcomes\<close>





end
